theory Spec2Isabelle
  imports Complex_Main
begin

section \<open>Client-side filtering and pagination of catalog queries (src/filters.ts)\<close>

text \<open>
  A shallow embedding of \<^verbatim>\<open>src/filters.ts\<close>: the predicate \<^verbatim>\<open>matchesFilters\<close>,
  the activity test \<^verbatim>\<open>hasActiveFilters\<close>, the description builder
  \<^verbatim>\<open>buildActiveFilterDescriptions\<close> and the orchestrator \<^verbatim>\<open>filteredFetch\<close>.

  Conventions of the embedding:
  \<^item> a TypeScript \<^verbatim>\<open>number\<close> that is compared or rendered is a \<open>real\<close>: every finite
    double is a real number and \<^verbatim>\<open><\<close> on finite doubles is \<^verbatim>\<open><\<close> on their values;
  \<^item> array lengths, the requested limit and the offset are \<open>nat\<close> (the tool schemas
    admit integers \<open>1..100\<close> and \<open>0..\<close>);
  \<^item> an optional property \<^verbatim>\<open>p?: T\<close> is a \<open>T option\<close>, \<open>None\<close> standing for \<^verbatim>\<open>undefined\<close>;
  \<^item> strings are \<open>char list\<close>s; \<^verbatim>\<open>String.prototype.toLowerCase\<close>, which the predicate
    applies to genre names, is the language's own conversion and no code of this
    repository: it is the parameter \<open>toLowerCase\<close> of every definition that reaches it,
    and the properties hold for every such function;
  \<^item> a rejected promise is the left injection of a sum, and the calls made to the
    \<^verbatim>\<open>fetchPage\<close> capability are returned as a trace next to the outcome.
\<close>

subsection \<open>Strings\<close>

type_synonym number = real

definition upper_letters :: string where
  "upper_letters = ''ABCDEFGHIJKLMNOPQRSTUVWXYZ''"

definition lower_letters :: string where
  "lower_letters = ''abcdefghijklmnopqrstuvwxyz''"

definition upper_char :: "char \<Rightarrow> char" where
  "upper_char c =
     (case map_of (zip lower_letters upper_letters) c of None \<Rightarrow> c | Some d \<Rightarrow> d)"

text \<open>
  \<^verbatim>\<open>String.prototype.toUpperCase\<close> on the letters \<open>a..z\<close>. The description builder
  applies it to \<^verbatim>\<open>genre_mode\<close> only, whose values are \<^verbatim>\<open>"or"\<close> and \<^verbatim>\<open>"and"\<close>.
\<close>

definition toUpperCase :: "string \<Rightarrow> string" where
  "toUpperCase s = map upper_char s"

text \<open>\<^verbatim>\<open>Array.prototype.join\<close> on an array of strings.\<close>

fun join :: "string \<Rightarrow> string list \<Rightarrow> string" where
  "join sep [] = []"
| "join sep [x] = x"
| "join sep (x # y # ys) = x @ sep @ join sep (y # ys)"

text \<open>Truthiness of an optional string: \<^verbatim>\<open>undefined\<close> and \<^verbatim>\<open>""\<close> are falsy.\<close>

definition truthy :: "string option \<Rightarrow> bool" where
  "truthy v = (case v of None \<Rightarrow> False | Some s \<Rightarrow> s \<noteq> [])"

subsection \<open>Data model (src/types.ts, src/filters.ts)\<close>

record MalPaging =
  previous :: "string option"
  "next" :: "string option"

record 'a MalListResponse =
  data :: "'a list"
  paging :: MalPaging

record genre =
  name :: string

record MalAnimeSeason =
  year :: number
  season :: string

text \<open>
  \<^verbatim>\<open>FilterableNode\<close>. The properties \<^verbatim>\<open>media_type\<close>, \<^verbatim>\<open>status\<close> and
  \<^verbatim>\<open>source\<close> carry the prefix \<open>node_\<close> here, since \<^verbatim>\<open>FilterParams\<close> has
  properties of the same names.
\<close>

record FilterableNode =
  genres :: "genre list option"
  mean :: "number option"
  node_media_type :: "string option"
  node_status :: "string option"
  num_list_users :: "number option"
  node_source :: "string option"
  start_season :: "MalAnimeSeason option"

text \<open>
  \<^verbatim>\<open>T extends { node: FilterableNode }\<close>: an extensible record, so a list item may carry
  more than its node (a ranking, for instance).
\<close>

record item =
  node :: FilterableNode

record FilterParams =
  genres_include :: "string list option"
  genres_exclude :: "string list option"
  genre_mode :: "string option"
  min_score :: "number option"
  min_members :: "number option"
  media_type :: "string list option"
  status :: "string option"
  source :: "string list option"
  current_season_only :: "bool option"

record SeasonContext =
  queriedYear :: number
  queriedSeason :: string

record FilterMeta =
  totalScanned :: nat
  totalMatched :: nat
  pagesScanned :: nat
  activeFilters :: "string list"
  hasMorePages :: bool
  nextOffset :: "nat option"

record 'a FilteredResult =
  items :: "'a list"
  meta :: FilterMeta

subsection \<open>hasActiveFilters\<close>

text \<open>
  The values a property of the filter object can hold, and the entries of the object
  as \<^verbatim>\<open>Object.entries\<close> lists them. A property that is absent and one that holds
  \<^verbatim>\<open>undefined\<close> are both \<open>None\<close>: the callback of \<^verbatim>\<open>some\<close> answers false on either.
\<close>

datatype jsvalue = JBool bool | JNum number | JStr string | JArr "string list"

definition MODIFIER_KEYS :: "string list" where
  "MODIFIER_KEYS = [''genre_mode'']"

definition entries :: "FilterParams \<Rightarrow> (string \<times> jsvalue option) list" where
  "entries filters =
     [(''genres_include'', map_option JArr (genres_include filters)),
      (''genres_exclude'', map_option JArr (genres_exclude filters)),
      (''genre_mode'', map_option JStr (genre_mode filters)),
      (''min_score'', map_option JNum (min_score filters)),
      (''min_members'', map_option JNum (min_members filters)),
      (''media_type'', map_option JArr (media_type filters)),
      (''status'', map_option JStr (status filters)),
      (''source'', map_option JArr (source filters)),
      (''current_season_only'', map_option JBool (current_season_only filters))]"

fun isEmptyArray :: "jsvalue option \<Rightarrow> bool" where
  "isEmptyArray (Some (JArr xs)) = (length xs = 0)"
| "isEmptyArray _ = False"

text \<open>The callback that \<^verbatim>\<open>hasActiveFilters\<close> hands to \<^verbatim>\<open>some\<close>, on one entry.\<close>

definition isActiveEntry :: "string \<Rightarrow> jsvalue option \<Rightarrow> bool" where
  "isActiveEntry key v =
     (if key \<in> set MODIFIER_KEYS then False
      else if v = None \<or> v = Some (JBool False) then False
      else if isEmptyArray v then False
      else True)"

definition hasActiveFilters :: "FilterParams \<Rightarrow> bool" where
  "hasActiveFilters filters = list_ex (\<lambda>(key, v). isActiveEntry key v) (entries filters)"

subsection \<open>matchesFilters\<close>

text \<open>
  Each of the eight guarded blocks of \<^verbatim>\<open>matchesFilters\<close> that end in
  \<^verbatim>\<open>return false\<close> is one predicate here, true when the block returns; the function
  runs them in the order of the source and answers true when none returned. The first
  two read \<^verbatim>\<open>genreNames\<close>, the lower-cased genre names of the record, and lower-case
  the requested names with the same conversion \<open>toLowerCase\<close>.
\<close>

definition rejectsGenresInclude ::
  "(string \<Rightarrow> string) \<Rightarrow> string list \<Rightarrow> FilterParams \<Rightarrow> bool" where
  "rejectsGenresInclude toLowerCase genreNames filters =
     (case genres_include filters of
        None \<Rightarrow> False
      | Some gi \<Rightarrow>
          length gi > 0 \<and>
          (let wanted = map toLowerCase gi;
               mode = (case genre_mode filters of None \<Rightarrow> ''or'' | Some m \<Rightarrow> m)
           in if mode = ''and''
              then \<not> list_all (\<lambda>w. w \<in> set genreNames) wanted
              else \<not> list_ex (\<lambda>w. w \<in> set genreNames) wanted))"

definition rejectsGenresExclude ::
  "(string \<Rightarrow> string) \<Rightarrow> string list \<Rightarrow> FilterParams \<Rightarrow> bool" where
  "rejectsGenresExclude toLowerCase genreNames filters =
     (case genres_exclude filters of
        None \<Rightarrow> False
      | Some ge \<Rightarrow>
          length ge > 0 \<and>
          (let excluded = map toLowerCase ge
           in list_ex (\<lambda>e. e \<in> set genreNames) excluded))"

definition rejectsMinScore :: "FilterableNode \<Rightarrow> FilterParams \<Rightarrow> bool" where
  "rejectsMinScore nd filters =
     (case min_score filters of
        None \<Rightarrow> False
      | Some ms \<Rightarrow> (case mean nd of None \<Rightarrow> True | Some m \<Rightarrow> m < ms))"

definition rejectsMinMembers :: "FilterableNode \<Rightarrow> FilterParams \<Rightarrow> bool" where
  "rejectsMinMembers nd filters =
     (case min_members filters of
        None \<Rightarrow> False
      | Some mm \<Rightarrow> (case num_list_users nd of None \<Rightarrow> 0 | Some n \<Rightarrow> n) < mm)"

definition rejectsMediaType :: "FilterableNode \<Rightarrow> FilterParams \<Rightarrow> bool" where
  "rejectsMediaType nd filters =
     (case media_type filters of
        None \<Rightarrow> False
      | Some mt \<Rightarrow>
          length mt > 0 \<and>
          (case node_media_type nd of
             None \<Rightarrow> True
           | Some t \<Rightarrow> t = [] \<or> t \<notin> set mt))"

definition rejectsStatus :: "FilterableNode \<Rightarrow> FilterParams \<Rightarrow> bool" where
  "rejectsStatus nd filters = (truthy (status filters) \<and> node_status nd \<noteq> status filters)"

definition rejectsSource :: "FilterableNode \<Rightarrow> FilterParams \<Rightarrow> bool" where
  "rejectsSource nd filters =
     (case source filters of
        None \<Rightarrow> False
      | Some so \<Rightarrow>
          length so > 0 \<and>
          (case node_source nd of
             None \<Rightarrow> True
           | Some s \<Rightarrow> s = [] \<or> s \<notin> set so))"

definition rejectsSeason ::
  "FilterableNode \<Rightarrow> FilterParams \<Rightarrow> SeasonContext option \<Rightarrow> bool" where
  "rejectsSeason nd filters seasonContext =
     (current_season_only filters = Some True \<and>
      (case seasonContext of
         None \<Rightarrow> False
       | Some ctx \<Rightarrow>
           (case start_season nd of
              None \<Rightarrow> True
            | Some ss \<Rightarrow> year ss \<noteq> queriedYear ctx \<or> season ss \<noteq> queriedSeason ctx)))"

definition matchesFilters ::
  "(string \<Rightarrow> string) \<Rightarrow> FilterableNode \<Rightarrow> FilterParams \<Rightarrow> SeasonContext option \<Rightarrow> bool" where
  "matchesFilters toLowerCase nd filters seasonContext =
     (let genreNames =
            map (\<lambda>g. toLowerCase (name g)) (case genres nd of None \<Rightarrow> [] | Some gs \<Rightarrow> gs)
      in
      if rejectsGenresInclude toLowerCase genreNames filters then False
      else if rejectsGenresExclude toLowerCase genreNames filters then False
      else if rejectsMinScore nd filters then False
      else if rejectsMinMembers nd filters then False
      else if rejectsMediaType nd filters then False
      else if rejectsStatus nd filters then False
      else if rejectsSource nd filters then False
      else if rejectsSeason nd filters seasonContext then False
      else True)"

subsection \<open>buildActiveFilterDescriptions\<close>

text \<open>
  The template literals render a number with the language's own number-to-string
  conversion, which is no code of this repository: it is the parameter
  \<open>numberToString\<close>. The array \<^verbatim>\<open>parts\<close> is threaded through the eight conditional
  pushes in the order of the source.
\<close>

definition buildActiveFilterDescriptions ::
  "(number \<Rightarrow> string) \<Rightarrow> FilterParams \<Rightarrow> string list" where
  "buildActiveFilterDescriptions numberToString filters =
     (let parts = [];
          parts = (case genres_include filters of
                     None \<Rightarrow> parts
                   | Some gi \<Rightarrow>
                       if length gi \<noteq> 0
                       then (let mode = toUpperCase
                                   (case genre_mode filters of None \<Rightarrow> ''or'' | Some m \<Rightarrow> m)
                             in parts @ [''genres('' @ mode @ '')='' @ join '','' gi])
                       else parts);
          parts = (case genres_exclude filters of
                     None \<Rightarrow> parts
                   | Some ge \<Rightarrow>
                       if length ge \<noteq> 0
                       then parts @ [''exclude_genres='' @ join '','' ge]
                       else parts);
          parts = (case min_score filters of
                     None \<Rightarrow> parts
                   | Some ms \<Rightarrow> parts @ [''min_score>='' @ numberToString ms]);
          parts = (case min_members filters of
                     None \<Rightarrow> parts
                   | Some mm \<Rightarrow> parts @ [''min_members>='' @ numberToString mm]);
          parts = (case media_type filters of
                     None \<Rightarrow> parts
                   | Some mt \<Rightarrow>
                       if length mt \<noteq> 0
                       then parts @ [''media_type='' @ join '','' mt]
                       else parts);
          parts = (case status filters of
                     None \<Rightarrow> parts
                   | Some st \<Rightarrow> if st \<noteq> [] then parts @ [''status='' @ st] else parts);
          parts = (case source filters of
                     None \<Rightarrow> parts
                   | Some so \<Rightarrow>
                       if length so \<noteq> 0
                       then parts @ [''source='' @ join '','' so]
                       else parts);
          parts = (if current_season_only filters = Some True
                   then parts @ [''current_season_only'']
                   else parts)
      in parts)"

subsection \<open>filteredFetch\<close>

definition FILTERED_PAGE_SIZE :: nat where
  "FILTERED_PAGE_SIZE = 100"

text \<open>
  The loop over \<^verbatim>\<open>result.data\<close>: a match is pushed onto \<^verbatim>\<open>matched\<close>, and the loop
  breaks as soon as \<^verbatim>\<open>matched.length >= requestedLimit\<close> holds after a push.
\<close>

fun scan ::
  "(string \<Rightarrow> string) \<Rightarrow> FilterParams \<Rightarrow> SeasonContext option \<Rightarrow> nat \<Rightarrow> 'm item_scheme list \<Rightarrow>
   'm item_scheme list \<Rightarrow> 'm item_scheme list" where
  "scan toLowerCase filters seasonContext requestedLimit [] matched = matched"
| "scan toLowerCase filters seasonContext requestedLimit (it # rest) matched =
     (if matchesFilters toLowerCase (node it) filters seasonContext
      then (let matched' = matched @ [it]
            in if length matched' \<ge> requestedLimit then matched'
               else scan toLowerCase filters seasonContext requestedLimit rest matched')
      else scan toLowerCase filters seasonContext requestedLimit rest matched)"

text \<open>
  The capability \<^verbatim>\<open>fetchPage(limit, offset)\<close> answers with an error (the promise
  rejects) or a page. The first component of the result of \<open>filteredFetch\<close> is the list
  of the calls \<open>(limit, offset)\<close> it made to the capability, in order; the second is the
  rejection or the value of the promise it returns.
\<close>

type_synonym ('e, 'a) fetcher = "nat \<Rightarrow> nat \<Rightarrow> 'e + 'a MalListResponse"

definition filteredFetch ::
  "(number \<Rightarrow> string) \<Rightarrow> (string \<Rightarrow> string) \<Rightarrow> ('e, 'm item_scheme) fetcher \<Rightarrow> FilterParams \<Rightarrow> nat \<Rightarrow> nat \<Rightarrow>
   SeasonContext option \<Rightarrow> (nat \<times> nat) list \<times> ('e + 'm item_scheme FilteredResult)" where
  "filteredFetch numberToString toLowerCase fetchPage filters requestedLimit initialOffset
     seasonContext =
     (if \<not> hasActiveFilters filters then
        (case fetchPage requestedLimit initialOffset of
           Inl e \<Rightarrow> ([(requestedLimit, initialOffset)], Inl e)
         | Inr result \<Rightarrow>
             ([(requestedLimit, initialOffset)],
              Inr \<lparr> items = data result,
                    meta = \<lparr> totalScanned = length (data result),
                             totalMatched = length (data result),
                             pagesScanned = 1,
                             activeFilters = [],
                             hasMorePages = truthy (next (paging result)),
                             nextOffset = None \<rparr> \<rparr>))
      else
        (case fetchPage FILTERED_PAGE_SIZE initialOffset of
           Inl e \<Rightarrow> ([(FILTERED_PAGE_SIZE, initialOffset)], Inl e)
         | Inr result \<Rightarrow>
             (let matched = scan toLowerCase filters seasonContext requestedLimit (data result) [];
                  hasMore = (truthy (next (paging result)) \<and>
                             length (data result) \<ge> FILTERED_PAGE_SIZE)
              in ([(FILTERED_PAGE_SIZE, initialOffset)],
                  Inr \<lparr> items = take requestedLimit matched,
                        meta = \<lparr> totalScanned = length (data result),
                                 totalMatched = length matched,
                                 pagesScanned = 1,
                                 activeFilters =
                                   buildActiveFilterDescriptions numberToString filters,
                                 hasMorePages = hasMore,
                                 nextOffset =
                                   (if hasMore
                                    then Some (initialOffset + length (data result))
                                    else None) \<rparr> \<rparr>))))"

subsection \<open>The description builder in the words of the specification\<close>

text \<open>
  Section 4.3 of the specification: each active field is rendered in the canonical
  order genre-include (with the mode in upper case), genre-exclude, min-score,
  min-members, media-type, status, source, season-only marker; a field with no active
  value contributes nothing. \<open>describe_canonical\<close> follows these words, not the code:
  it is compared with \<open>buildActiveFilterDescriptions\<close> below.
\<close>

definition rendered :: "bool \<Rightarrow> string \<Rightarrow> string list" where
  "rendered active s = (if active then [s] else [])"

definition nonEmptyList :: "string list option \<Rightarrow> bool" where
  "nonEmptyList v = (v \<noteq> None \<and> v \<noteq> Some [])"

definition listOf :: "string list option \<Rightarrow> string list" where
  "listOf v = (case v of None \<Rightarrow> [] | Some xs \<Rightarrow> xs)"

definition describe_canonical :: "(number \<Rightarrow> string) \<Rightarrow> FilterParams \<Rightarrow> string list" where
  "describe_canonical numberToString filters = concat
     [rendered (nonEmptyList (genres_include filters))
        (''genres('' @
         toUpperCase (case genre_mode filters of None \<Rightarrow> ''or'' | Some m \<Rightarrow> m) @
         '')='' @ join '','' (listOf (genres_include filters))),
      rendered (nonEmptyList (genres_exclude filters))
        (''exclude_genres='' @ join '','' (listOf (genres_exclude filters))),
      (case min_score filters of
         None \<Rightarrow> [] | Some ms \<Rightarrow> [''min_score>='' @ numberToString ms]),
      (case min_members filters of
         None \<Rightarrow> [] | Some mm \<Rightarrow> [''min_members>='' @ numberToString mm]),
      rendered (nonEmptyList (media_type filters))
        (''media_type='' @ join '','' (listOf (media_type filters))),
      (case status filters of
         None \<Rightarrow> [] | Some st \<Rightarrow> rendered (st \<noteq> []) (''status='' @ st)),
      rendered (nonEmptyList (source filters))
        (''source='' @ join '','' (listOf (source filters))),
      rendered (current_season_only filters = Some True) ''current_season_only'']"

subsection \<open>Notions of the specification\<close>

text \<open>The records of a window that pass the predicate, in arrival order.\<close>

definition matching ::
  "(string \<Rightarrow> string) \<Rightarrow> FilterParams \<Rightarrow> SeasonContext option \<Rightarrow> 'm item_scheme list \<Rightarrow>
   'm item_scheme list" where
  "matching toLowerCase filters ctx xs =
     filter (\<lambda>it. matchesFilters toLowerCase (node it) filters ctx) xs"

text \<open>
  Section 3 of the specification: a spec is inactive when no field other than the
  modifier \<open>genre_mode\<close> is set to a non-empty, non-false value.
\<close>

definition inactiveSpec :: "FilterParams \<Rightarrow> bool" where
  "inactiveSpec f =
     (listOf (genres_include f) = [] \<and> listOf (genres_exclude f) = [] \<and>
      min_score f = None \<and> min_members f = None \<and>
      listOf (media_type f) = [] \<and> status f = None \<and>
      listOf (source f) = [] \<and> current_season_only f \<noteq> Some True)"

text \<open>
  Two names are the same up to letter case when the conversion gives them the same
  lower-case form; two lists of names agree up to letter case when they do so name by
  name. Then the genre names of a record.
\<close>

definition sameUpToCase :: "(string \<Rightarrow> string) \<Rightarrow> string \<Rightarrow> string \<Rightarrow> bool" where
  "sameUpToCase toLowerCase s t = (toLowerCase s = toLowerCase t)"

definition variant_names :: "(string \<Rightarrow> string) \<Rightarrow> string list \<Rightarrow> string list \<Rightarrow> bool" where
  "variant_names toLowerCase xs ys = list_all2 (sameUpToCase toLowerCase) xs ys"

definition genreNamesOf :: "FilterableNode \<Rightarrow> string list" where
  "genreNamesOf nd = map name (case genres nd of None \<Rightarrow> [] | Some gs \<Rightarrow> gs)"

subsection \<open>Inputs of the worked examples\<close>

definition noFilters :: FilterParams where
  "noFilters = \<lparr> genres_include = None, genres_exclude = None, genre_mode = None,
      min_score = None, min_members = None, media_type = None, status = None,
      source = None, current_season_only = None \<rparr>"

text \<open>The specification's \<^verbatim>\<open>{minScore: 8.0}\<close>.\<close>

definition scoreFilter :: FilterParams where
  "scoreFilter = noFilters \<lparr> min_score := Some 8 \<rparr>"

definition plainNode :: FilterableNode where
  "plainNode = \<lparr> genres = None, mean = None, node_media_type = None, node_status = None,
      num_list_users = None, node_source = None, start_season = None \<rparr>"

definition scored :: "number \<Rightarrow> item" where
  "scored x = \<lparr> node = plainNode \<lparr> mean := Some x \<rparr> \<rparr>"

definition tagged :: "string list \<Rightarrow> FilterableNode" where
  "tagged names = plainNode \<lparr> genres := Some (map (\<lambda>n. \<lparr> name = n \<rparr>) names) \<rparr>"

text \<open>
  A window of 100 records of which the twelve at the positions \<open>0, 9, 18, ..., 99\<close>
  score \<open>8.00, 8.09, ..., 8.99\<close> and the others score \<open>5\<close>.
\<close>

definition windowB :: "item list" where
  "windowB = map (\<lambda>i. scored (if i mod 9 = 0 then 8 + real i / 100 else 5)) [0..<100]"

text \<open>A capability that answers every call with the same page, and one that rejects.\<close>

definition fixedPage :: "'a list \<Rightarrow> string option \<Rightarrow> (string, 'a) fetcher" where
  "fixedPage xs nx l off = Inr \<lparr> data = xs, paging = \<lparr> previous = None, next = nx \<rparr> \<rparr>"

definition rejecting :: "string \<Rightarrow> (string, item) fetcher" where
  "rejecting msg l off = Inl msg"

text \<open>A remote catalog that honours the page size and reports a next page while one exists.\<close>

definition remoteCatalog :: "'a list \<Rightarrow> (string, 'a) fetcher" where
  "remoteCatalog xs l off =
     Inr \<lparr> data = take l (drop off xs),
           paging = \<lparr> previous = None,
                      next = (if off + l < length xs then Some ''next'' else None) \<rparr> \<rparr>"

text \<open>
  The conversion to lower case on the names the examples use: the letters \<open>A..Z\<close> go
  to \<open>a..z\<close>, as \<^verbatim>\<open>String.prototype.toLowerCase\<close> sends them, and every other character
  of an example is left as it is. Two characters that are the same letter in the two
  cases, and two names that differ in the case of such letters only, are defined without
  it.
\<close>

definition lower_char :: "char \<Rightarrow> char" where
  "lower_char c =
     (case map_of (zip upper_letters lower_letters) c of None \<Rightarrow> c | Some d \<Rightarrow> d)"

definition asciiToLowerCase :: "string \<Rightarrow> string" where
  "asciiToLowerCase s = map lower_char s"

definition same_letter :: "char \<Rightarrow> char \<Rightarrow> bool" where
  "same_letter c d =
     (c = d \<or> (c, d) \<in> set (zip upper_letters lower_letters)
            \<or> (c, d) \<in> set (zip lower_letters upper_letters))"

definition case_variant :: "string \<Rightarrow> string \<Rightarrow> bool" where
  "case_variant s t = list_all2 same_letter s t"

text \<open>A rendering of the numbers the examples use.\<close>

definition demoNumberToString :: "number \<Rightarrow> string" where
  "demoNumberToString x = (if x = 8 then ''8'' else if x = 1000 then ''1000'' else ''?'')"

text \<open>A spec that asks for one genre and excludes another.\<close>

definition genreSpec :: FilterParams where
  "genreSpec = noFilters \<lparr> genres_include := Some [''action''], genres_exclude := Some [''horror''] \<rparr>"

text \<open>A spec with every field active.\<close>

definition fullSpec :: FilterParams where
  "fullSpec = \<lparr> genres_include = Some [''Action'', ''Romance''],
      genres_exclude = Some [''Horror''], genre_mode = Some ''and'', min_score = Some 8,
      min_members = Some 1000, media_type = Some [''tv'', ''movie''],
      status = Some ''finished_airing'', source = Some [''manga''],
      current_season_only = Some True \<rparr>"

section \<open>Properties\<close>

subsection \<open>Auxiliary facts\<close>

text \<open>
  The loop returns the accumulator followed by a prefix of the matching records: the
  first \<open>requestedLimit - length matched\<close> of them, and at least one, since the test
  for the limit comes after a push.
\<close>

lemma scan_eq:
  "scan toLowerCase filters ctx rl xs acc =
     acc @ take (max 1 (rl - length acc))
             (filter (\<lambda>it. matchesFilters toLowerCase (node it) filters ctx) xs)"
proof (induction xs arbitrary: acc)
  case Nil
  then show ?case by simp
next
  case (Cons it rest)
  show ?case
  proof (cases "matchesFilters toLowerCase (node it) filters ctx")
    case False
    then show ?thesis using Cons.IH [of acc] by simp
  next
    case True
    show ?thesis
    proof (cases "rl \<le> Suc (length acc)")
      case stop: True
      with True show ?thesis by (simp add: Let_def take_Cons')
    next
      case go: False
      with True show ?thesis
        using Cons.IH [of "acc @ [it]"] by (simp add: Let_def take_Cons')
    qed
  qed
qed

lemma filteredFetch_unfiltered:
  assumes "\<not> hasActiveFilters filters"
  shows "filteredFetch nts toLowerCase fetchPage filters rl off ctx =
     ([(rl, off)],
      case fetchPage rl off of
        Inl e \<Rightarrow> Inl e
      | Inr result \<Rightarrow>
          Inr \<lparr> items = data result,
                meta = \<lparr> totalScanned = length (data result),
                         totalMatched = length (data result),
                         pagesScanned = 1,
                         activeFilters = [],
                         hasMorePages = truthy (next (paging result)),
                         nextOffset = None \<rparr> \<rparr>)"
  using assms by (simp add: filteredFetch_def split: sum.splits)

lemma filteredFetch_filtered:
  assumes "hasActiveFilters filters"
    and "fetchPage FILTERED_PAGE_SIZE off = Inr result"
  shows "filteredFetch nts toLowerCase fetchPage filters rl off ctx =
     ([(FILTERED_PAGE_SIZE, off)],
      Inr \<lparr> items = take rl (scan toLowerCase filters ctx rl (data result) []),
            meta = \<lparr> totalScanned = length (data result),
                     totalMatched = length (scan toLowerCase filters ctx rl (data result) []),
                     pagesScanned = 1,
                     activeFilters = buildActiveFilterDescriptions nts filters,
                     hasMorePages = (truthy (next (paging result)) \<and>
                                     FILTERED_PAGE_SIZE \<le> length (data result)),
                     nextOffset =
                       (if truthy (next (paging result)) \<and>
                           FILTERED_PAGE_SIZE \<le> length (data result)
                        then Some (off + length (data result)) else None) \<rparr> \<rparr>)"
  using assms by (simp add: filteredFetch_def Let_def)

text \<open>What \<open>hasActiveFilters\<close> decides, field by field.\<close>

lemma active_arr:
  "isActiveEntry k (map_option JArr x) \<longleftrightarrow> k \<noteq> ''genre_mode'' \<and> x \<noteq> None \<and> x \<noteq> Some []"
  by (cases x) (auto simp: isActiveEntry_def MODIFIER_KEYS_def)

lemma active_num:
  "isActiveEntry k (map_option JNum x) \<longleftrightarrow> k \<noteq> ''genre_mode'' \<and> x \<noteq> None"
  by (cases x) (auto simp: isActiveEntry_def MODIFIER_KEYS_def)

lemma active_str:
  "isActiveEntry k (map_option JStr x) \<longleftrightarrow> k \<noteq> ''genre_mode'' \<and> x \<noteq> None"
  by (cases x) (auto simp: isActiveEntry_def MODIFIER_KEYS_def)

lemma active_bool:
  "isActiveEntry k (map_option JBool x) \<longleftrightarrow> k \<noteq> ''genre_mode'' \<and> x = Some True"
  by (cases x) (auto simp: isActiveEntry_def MODIFIER_KEYS_def)

lemma hasActiveFilters_iff:
  "hasActiveFilters f \<longleftrightarrow>
     (genres_include f \<noteq> None \<and> genres_include f \<noteq> Some []) \<or>
     (genres_exclude f \<noteq> None \<and> genres_exclude f \<noteq> Some []) \<or>
     min_score f \<noteq> None \<or> min_members f \<noteq> None \<or>
     (media_type f \<noteq> None \<and> media_type f \<noteq> Some []) \<or>
     status f \<noteq> None \<or>
     (source f \<noteq> None \<and> source f \<noteq> Some []) \<or>
     current_season_only f = Some True"
  unfolding hasActiveFilters_def entries_def
  by (simp add: active_arr active_num active_str active_bool)

lemma noFilters_inactive: "\<not> hasActiveFilters noFilters"
  by (simp add: hasActiveFilters_iff noFilters_def)

lemma scoreFilter_active: "hasActiveFilters scoreFilter"
  by (simp add: hasActiveFilters_iff scoreFilter_def noFilters_def)

text \<open>The predicate as the conjunction of its eight checks.\<close>

lemma matchesFilters_conj:
  "matchesFilters toLowerCase nd filters ctx \<longleftrightarrow>
     \<not> rejectsGenresInclude toLowerCase
          (map (\<lambda>g. toLowerCase (name g)) (case genres nd of None \<Rightarrow> [] | Some gs \<Rightarrow> gs))
          filters \<and>
     \<not> rejectsGenresExclude toLowerCase
          (map (\<lambda>g. toLowerCase (name g)) (case genres nd of None \<Rightarrow> [] | Some gs \<Rightarrow> gs))
          filters \<and>
     \<not> rejectsMinScore nd filters \<and> \<not> rejectsMinMembers nd filters \<and>
     \<not> rejectsMediaType nd filters \<and> \<not> rejectsStatus nd filters \<and>
     \<not> rejectsSource nd filters \<and> \<not> rejectsSeason nd filters ctx"
  by (simp add: matchesFilters_def Let_def)

lemma matches_scored: "matchesFilters toLowerCase (node (scored x)) scoreFilter ctx \<longleftrightarrow> 8 \<le> x"
  by (auto simp: matchesFilters_conj rejectsGenresInclude_def rejectsGenresExclude_def
      rejectsMinScore_def rejectsMinMembers_def rejectsMediaType_def rejectsStatus_def
      rejectsSource_def rejectsSeason_def scoreFilter_def noFilters_def scored_def
      plainNode_def truthy_def)

lemma length_windowB: "length windowB = 100"
  by (simp add: windowB_def)

lemma matching_windowB:
  "matching toLowerCase scoreFilter ctx windowB =
     map scored [8, 8.09, 8.18, 8.27, 8.36, 8.45, 8.54, 8.63, 8.72, 8.81, 8.9, 8.99]"
  unfolding matching_def windowB_def filter_map comp_def matches_scored
  by (simp add: upt_rec)

lemma length_scan:
  "length (scan toLowerCase filters ctx rl xs []) = min (max 1 rl) (length (matching toLowerCase filters ctx xs))"
  by (simp add: scan_eq matching_def min.commute)

lemma take_scan:
  "take rl (scan toLowerCase filters ctx rl xs []) = take rl (matching toLowerCase filters ctx xs)"
  by (cases rl) (simp_all add: scan_eq matching_def min_def)

lemma length_matching_le: "length (matching toLowerCase filters ctx xs) \<le> length xs"
  unfolding matching_def by (rule length_filter_le)

lemma listOf_Nil: "listOf v = [] \<longleftrightarrow> v = None \<or> v = Some []"
  by (cases v) (simp_all add: listOf_def)

lemma inactiveSpec_iff: "inactiveSpec f \<longleftrightarrow> \<not> hasActiveFilters f"
  by (auto simp: inactiveSpec_def hasActiveFilters_iff listOf_Nil)

lemma page_windowB:
  "fixedPage windowB (Some ''next'') l off =
     Inr \<lparr> data = windowB, paging = \<lparr> previous = None, next = Some ''next'' \<rparr> \<rparr>"
  by (simp add: fixedPage_def)

lemma describe_scoreFilter:
  "buildActiveFilterDescriptions demoNumberToString scoreFilter = [''min_score>=8'']"
  by (simp add: buildActiveFilterDescriptions_def scoreFilter_def noFilters_def
      demoNumberToString_def)

subsection \<open>Auxiliary facts on the predicate and the description builder\<close>

text \<open>
  The two genre checks read the genre names of the record and the requested names
  through their lower-case forms only.
\<close>

lemma variant_names_lower:
  "variant_names toLowerCase xs ys \<Longrightarrow> map toLowerCase xs = map toLowerCase ys"
  unfolding variant_names_def
  by (induction xs ys rule: list_all2_induct) (simp_all add: sameUpToCase_def)

lemma variant_names_Nil: "variant_names toLowerCase xs ys \<Longrightarrow> xs = [] \<longleftrightarrow> ys = []"
  unfolding variant_names_def by (cases xs; cases ys) simp_all

lemma genreNames_lower:
  "map (\<lambda>g. toLowerCase (name g)) (case genres nd of None \<Rightarrow> [] | Some gs \<Rightarrow> gs) =
     map toLowerCase (genreNamesOf nd)"
  by (simp add: genreNamesOf_def comp_def)

lemma rejectsGenresInclude_alt:
  "rejectsGenresInclude toLowerCase names filters \<longleftrightarrow>
     listOf (genres_include filters) \<noteq> [] \<and>
     (if genre_mode filters = Some ''and''
      then \<not> set (map toLowerCase (listOf (genres_include filters))) \<subseteq> set names
      else set (map toLowerCase (listOf (genres_include filters))) \<inter> set names = {})"
proof (cases "genres_include filters")
  case None
  then show ?thesis by (simp add: rejectsGenresInclude_def listOf_def)
next
  case (Some gi)
  have m: "((case genre_mode filters of None \<Rightarrow> ''or'' | Some m \<Rightarrow> m) = ''and'') \<longleftrightarrow>
      genre_mode filters = Some ''and''"
    by (cases "genre_mode filters") simp_all
  have a: "list_all (\<lambda>w. w \<in> set names) ws \<longleftrightarrow> set ws \<subseteq> set names" for ws
    by (auto simp: list_all_iff)
  have e: "list_ex (\<lambda>w. w \<in> set names) ws \<longleftrightarrow> set ws \<inter> set names \<noteq> {}" for ws
    by (auto simp: list_ex_iff)
  show ?thesis
    unfolding rejectsGenresInclude_def Some listOf_def Let_def m a e
    by simp
qed

lemma rejectsGenresExclude_alt:
  "rejectsGenresExclude toLowerCase names filters \<longleftrightarrow>
     set (map toLowerCase (listOf (genres_exclude filters))) \<inter> set names \<noteq> {}"
proof (cases "genres_exclude filters")
  case None
  then show ?thesis by (simp add: rejectsGenresExclude_def listOf_def)
next
  case (Some ge)
  have e: "list_ex (\<lambda>w. w \<in> set names) ws \<longleftrightarrow> set ws \<inter> set names \<noteq> {}" for ws
    by (auto simp: list_ex_iff)
  show ?thesis
    unfolding rejectsGenresExclude_def Some listOf_def Let_def e
    by (cases ge) simp_all
qed

lemma lower_meets:
  "set (map toLowerCase ws) \<inter> set (map toLowerCase gs) \<noteq> {} \<longleftrightarrow>
     (\<exists>w\<in>set ws. \<exists>g\<in>set gs. sameUpToCase toLowerCase w g)"
  by (auto simp: sameUpToCase_def)

lemma lower_within:
  "set (map toLowerCase ws) \<subseteq> set (map toLowerCase gs) \<longleftrightarrow>
     (\<forall>w\<in>set ws. \<exists>g\<in>set gs. sameUpToCase toLowerCase w g)"
  by (auto simp: sameUpToCase_def image_iff)

text \<open>
  On the names of the examples: names that differ in the case of the letters \<open>A..Z\<close>
  only have the same lower-case form.
\<close>

lemma lower_char_letters:
  "map lower_char upper_letters = lower_letters"
  "map lower_char lower_letters = lower_letters"
  by (simp_all add: lower_char_def upper_letters_def lower_letters_def)

lemma zip_map_graph: "(c, d) \<in> set (zip xs (map f xs)) \<Longrightarrow> d = f c"
  by (auto simp: in_set_zip)

lemma map_fixed: "map f xs = xs \<Longrightarrow> x \<in> set xs \<Longrightarrow> f x = x"
  by (induction xs) auto

lemma upper_lower_pair:
  assumes "(c, d) \<in> set (zip upper_letters lower_letters)"
  shows "lower_char c = lower_char d"
proof -
  from assms have "(c, d) \<in> set (zip upper_letters (map lower_char upper_letters))"
    by (simp add: lower_char_letters)
  then have "d = lower_char c" by (rule zip_map_graph)
  moreover from assms have "d \<in> set lower_letters" by (rule set_zip_rightD)
  then have "lower_char d = d" by (rule map_fixed [OF lower_char_letters(2)])
  ultimately show ?thesis by simp
qed

lemma same_letter_lower:
  assumes "same_letter c d"
  shows "lower_char c = lower_char d"
proof -
  from assms consider "c = d" | "(c, d) \<in> set (zip upper_letters lower_letters)"
    | "(d, c) \<in> set (zip upper_letters lower_letters)"
    unfolding same_letter_def by (auto simp: in_set_zip)
  then show ?thesis
    by cases (simp_all add: upper_lower_pair)
qed

lemma case_variant_same: "case_variant s t \<Longrightarrow> sameUpToCase asciiToLowerCase s t"
  unfolding case_variant_def sameUpToCase_def asciiToLowerCase_def
  by (induction s t rule: list_all2_induct) (simp_all add: same_letter_lower)

lemma case_variants_names:
  "list_all2 case_variant xs ys \<Longrightarrow> variant_names asciiToLowerCase xs ys"
  unfolding variant_names_def
  by (induction xs ys rule: list_all2_induct) (simp_all add: case_variant_same)

text \<open>Fields that a check does not read.\<close>

lemma mode_irrelevant:
  "rejectsGenresExclude toLowerCase ns (filters \<lparr> genre_mode := m \<rparr>) = rejectsGenresExclude toLowerCase ns filters"
  "rejectsMinScore nd (filters \<lparr> genre_mode := m \<rparr>) = rejectsMinScore nd filters"
  "rejectsMinMembers nd (filters \<lparr> genre_mode := m \<rparr>) = rejectsMinMembers nd filters"
  "rejectsMediaType nd (filters \<lparr> genre_mode := m \<rparr>) = rejectsMediaType nd filters"
  "rejectsStatus nd (filters \<lparr> genre_mode := m \<rparr>) = rejectsStatus nd filters"
  "rejectsSource nd (filters \<lparr> genre_mode := m \<rparr>) = rejectsSource nd filters"
  "rejectsSeason nd (filters \<lparr> genre_mode := m \<rparr>) ctx = rejectsSeason nd filters ctx"
  by (simp_all add: rejectsGenresExclude_def rejectsMinScore_def rejectsMinMembers_def
      rejectsMediaType_def rejectsStatus_def rejectsSource_def rejectsSeason_def)

lemma include_and_implies_other:
  assumes "\<not> rejectsGenresInclude toLowerCase ns (filters \<lparr> genre_mode := Some ''and'' \<rparr>)"
    and "m \<noteq> Some ''and''"
  shows "\<not> rejectsGenresInclude toLowerCase ns (filters \<lparr> genre_mode := m \<rparr>)"
proof -
  from assms(1) have "listOf (genres_include filters) = [] \<or>
      set (map toLowerCase (listOf (genres_include filters))) \<subseteq> set ns"
    by (simp add: rejectsGenresInclude_alt)
  then have "listOf (genres_include filters) = [] \<or>
      set (map toLowerCase (listOf (genres_include filters))) \<inter> set ns \<noteq> {}"
    by (cases "listOf (genres_include filters)") auto
  with assms(2) show ?thesis
    by (simp add: rejectsGenresInclude_alt)
qed

lemma season_irrelevant:
  "rejectsGenresInclude toLowerCase ns (filters \<lparr> current_season_only := b \<rparr>) = rejectsGenresInclude toLowerCase ns filters"
  "rejectsGenresExclude toLowerCase ns (filters \<lparr> current_season_only := b \<rparr>) = rejectsGenresExclude toLowerCase ns filters"
  "rejectsMinScore nd (filters \<lparr> current_season_only := b \<rparr>) = rejectsMinScore nd filters"
  "rejectsMinMembers nd (filters \<lparr> current_season_only := b \<rparr>) = rejectsMinMembers nd filters"
  "rejectsMediaType nd (filters \<lparr> current_season_only := b \<rparr>) = rejectsMediaType nd filters"
  "rejectsStatus nd (filters \<lparr> current_season_only := b \<rparr>) = rejectsStatus nd filters"
  "rejectsSource nd (filters \<lparr> current_season_only := b \<rparr>) = rejectsSource nd filters"
  by (simp_all add: rejectsGenresInclude_def rejectsGenresExclude_def rejectsMinScore_def
      rejectsMinMembers_def rejectsMediaType_def rejectsStatus_def rejectsSource_def
      cong: option.case_cong)

lemma start_season_irrelevant:
  "genreNamesOf (nd \<lparr> start_season := ss \<rparr>) = genreNamesOf nd"
  "rejectsMinScore (nd \<lparr> start_season := ss \<rparr>) filters = rejectsMinScore nd filters"
  "rejectsMinMembers (nd \<lparr> start_season := ss \<rparr>) filters = rejectsMinMembers nd filters"
  "rejectsMediaType (nd \<lparr> start_season := ss \<rparr>) filters = rejectsMediaType nd filters"
  "rejectsStatus (nd \<lparr> start_season := ss \<rparr>) filters = rejectsStatus nd filters"
  "rejectsSource (nd \<lparr> start_season := ss \<rparr>) filters = rejectsSource nd filters"
  by (simp_all add: genreNamesOf_def rejectsMinScore_def rejectsMinMembers_def
      rejectsMediaType_def rejectsStatus_def rejectsSource_def cong: option.case_cong)

lemma rejectsSeason_no_context: "\<not> rejectsSeason nd filters None"
  by (simp add: rejectsSeason_def)

lemma rejectsSeason_flag:
  "rejectsSeason nd (filters \<lparr> current_season_only := Some True \<rparr>) ctx \<Longrightarrow> ctx \<noteq> None"
  by (cases ctx) (simp_all add: rejectsSeason_def)

lemma genres_irrelevant:
  "rejectsMinScore (nd \<lparr> genres := gs \<rparr>) filters = rejectsMinScore nd filters"
  "rejectsMinMembers (nd \<lparr> genres := gs \<rparr>) filters = rejectsMinMembers nd filters"
  "rejectsMediaType (nd \<lparr> genres := gs \<rparr>) filters = rejectsMediaType nd filters"
  "rejectsStatus (nd \<lparr> genres := gs \<rparr>) filters = rejectsStatus nd filters"
  "rejectsSource (nd \<lparr> genres := gs \<rparr>) filters = rejectsSource nd filters"
  "rejectsSeason (nd \<lparr> genres := gs \<rparr>) filters ctx = rejectsSeason nd filters ctx"
  by (simp_all add: rejectsMinScore_def rejectsMinMembers_def
      rejectsMediaType_def rejectsStatus_def rejectsSource_def rejectsSeason_def
      cong: option.case_cong)

lemma requested_irrelevant:
  "rejectsMinScore nd (filters \<lparr> genres_include := gi, genres_exclude := ge \<rparr>) =
     rejectsMinScore nd filters"
  "rejectsMinMembers nd (filters \<lparr> genres_include := gi, genres_exclude := ge \<rparr>) =
     rejectsMinMembers nd filters"
  "rejectsMediaType nd (filters \<lparr> genres_include := gi, genres_exclude := ge \<rparr>) =
     rejectsMediaType nd filters"
  "rejectsStatus nd (filters \<lparr> genres_include := gi, genres_exclude := ge \<rparr>) =
     rejectsStatus nd filters"
  "rejectsSource nd (filters \<lparr> genres_include := gi, genres_exclude := ge \<rparr>) =
     rejectsSource nd filters"
  "rejectsSeason nd (filters \<lparr> genres_include := gi, genres_exclude := ge \<rparr>) ctx =
     rejectsSeason nd filters ctx"
  by (simp_all add: rejectsMinScore_def rejectsMinMembers_def
      rejectsMediaType_def rejectsStatus_def rejectsSource_def rejectsSeason_def
      cong: option.case_cong)

text \<open>
  How the genres enter the predicate: the include check and the exclude check, stated
  with equality up to letter case, and the six checks that read no genre.
\<close>

lemma matchesFilters_genres:
  "matchesFilters toLowerCase nd filters ctx \<longleftrightarrow>
     (listOf (genres_include filters) = [] \<or>
      (if genre_mode filters = Some ''and''
       then \<forall>w\<in>set (listOf (genres_include filters)).
              \<exists>g\<in>set (genreNamesOf nd). sameUpToCase toLowerCase w g
       else \<exists>w\<in>set (listOf (genres_include filters)).
              \<exists>g\<in>set (genreNamesOf nd). sameUpToCase toLowerCase w g)) \<and>
     (\<forall>e\<in>set (listOf (genres_exclude filters)).
        \<forall>g\<in>set (genreNamesOf nd). \<not> sameUpToCase toLowerCase e g) \<and>
     matchesFilters toLowerCase (nd \<lparr> genres := None \<rparr>)
       (filters \<lparr> genres_include := None, genres_exclude := None \<rparr>) ctx"
proof -
  have i: "rejectsGenresInclude toLowerCase (map toLowerCase (genreNamesOf nd)) filters \<longleftrightarrow>
      \<not> (listOf (genres_include filters) = [] \<or>
      (if genre_mode filters = Some ''and''
       then \<forall>w\<in>set (listOf (genres_include filters)).
              \<exists>g\<in>set (genreNamesOf nd). sameUpToCase toLowerCase w g
       else \<exists>w\<in>set (listOf (genres_include filters)).
              \<exists>g\<in>set (genreNamesOf nd). sameUpToCase toLowerCase w g))"
    unfolding rejectsGenresInclude_alt lower_within lower_meets [symmetric] by simp
  have e: "rejectsGenresExclude toLowerCase (map toLowerCase (genreNamesOf nd)) filters \<longleftrightarrow>
      \<not> (\<forall>e\<in>set (listOf (genres_exclude filters)).
        \<forall>g\<in>set (genreNamesOf nd). \<not> sameUpToCase toLowerCase e g)"
    unfolding rejectsGenresExclude_alt lower_meets by simp
  have n: "\<not> rejectsGenresInclude toLowerCase ns
        (filters \<lparr> genres_include := None, genres_exclude := None \<rparr>)"
    "\<not> rejectsGenresExclude toLowerCase ns
        (filters \<lparr> genres_include := None, genres_exclude := None \<rparr>)" for ns
    by (simp_all add: rejectsGenresInclude_def rejectsGenresExclude_def)
  show ?thesis
    unfolding matchesFilters_conj genreNames_lower i e genres_irrelevant requested_irrelevant
    by (simp add: n)
qed

text \<open>Each conditional push of the builder appends one optional rendering.\<close>

lemma push_arr:
  "(case v of None \<Rightarrow> parts | Some xs \<Rightarrow> if length xs \<noteq> 0 then parts @ [f xs] else parts) =
     parts @ rendered (nonEmptyList v) (f (listOf v))"
  by (cases v) (simp_all add: rendered_def nonEmptyList_def listOf_def)

lemma push_arr_let:
  "(case v of None \<Rightarrow> parts
    | Some xs \<Rightarrow> if length xs \<noteq> 0 then (let mode = m in parts @ [f mode xs]) else parts) =
     parts @ rendered (nonEmptyList v) (f m (listOf v))"
  by (cases v) (simp_all add: rendered_def nonEmptyList_def listOf_def)

lemma push_num:
  "(case v of None \<Rightarrow> parts | Some (x::number) \<Rightarrow> parts @ [f x]) =
     parts @ (case v of None \<Rightarrow> [] | Some x \<Rightarrow> [f x])"
  by (cases v) simp_all

lemma push_str:
  "(case v of None \<Rightarrow> parts | Some (st::string) \<Rightarrow> if st \<noteq> [] then parts @ [f st] else parts) =
     parts @ (case v of None \<Rightarrow> [] | Some st \<Rightarrow> rendered (st \<noteq> []) (f st))"
  by (cases v) (simp_all add: rendered_def)

lemma push_flag:
  "(if b then parts @ [s] else parts) = parts @ rendered b s"
  by (simp add: rendered_def)

lemma build_eq_canonical:
  "buildActiveFilterDescriptions nts filters = describe_canonical nts filters"
  unfolding buildActiveFilterDescriptions_def describe_canonical_def
  by (simp add: push_arr_let push_arr push_num push_str push_flag Let_def del: length_0_conv)

text \<open>The definitions that evaluate the predicate on the records of the examples.\<close>

lemmas matches_eval =
  matchesFilters_conj rejectsGenresInclude_def rejectsGenresExclude_def rejectsMinScore_def
  rejectsMinMembers_def rejectsMediaType_def rejectsStatus_def rejectsSource_def
  rejectsSeason_def tagged_def plainNode_def noFilters_def truthy_def asciiToLowerCase_def
  lower_char_def upper_letters_def lower_letters_def

lemma matches_plain: "matchesFilters toLowerCase plainNode noFilters ctx"
  by (simp add: matchesFilters_conj rejectsGenresInclude_def rejectsGenresExclude_def
      rejectsMinScore_def rejectsMinMembers_def rejectsMediaType_def rejectsStatus_def
      rejectsSource_def rejectsSeason_def plainNode_def noFilters_def truthy_def)

subsection \<open>C1: when the filtered path reports more pages\<close>

text \<open>
  Claim C1. On the filtered path (the filter spec is active and the capability answers
  with a page), \<open>meta.hasMorePages\<close> is true exactly when the remote continuation
  indicator \<^verbatim>\<open>paging.next\<close> is truthy and the fetched window holds the full
  \<open>FILTERED_PAGE_SIZE = 100\<close> records; a window of fewer than 100 records gives
  \<open>hasMorePages = false\<close> whatever the indicator says. The code tests
  \<^verbatim>\<open>result.data.length >= FILTERED_PAGE_SIZE\<close>; the capability is asked for 100 records
  and, by its contract, answers with at most as many as it was asked for, and on such a
  window the test is the equality the claim states.
\<close>

theorem filtered_hasMorePages:
  assumes "hasActiveFilters filters"
    and "fetchPage FILTERED_PAGE_SIZE initialOffset = Inr result"
  shows "\<exists>res. snd (filteredFetch nts toLowerCase fetchPage filters requestedLimit initialOffset ctx) = Inr res \<and>
           FILTERED_PAGE_SIZE = 100 \<and>
           (hasMorePages (meta res) \<longleftrightarrow>
              truthy (next (paging result)) \<and> FILTERED_PAGE_SIZE \<le> length (data result)) \<and>
           (length (data result) \<le> FILTERED_PAGE_SIZE \<longrightarrow>
              (hasMorePages (meta res) \<longleftrightarrow>
                 truthy (next (paging result)) \<and> length (data result) = FILTERED_PAGE_SIZE)) \<and>
           (length (data result) < 100 \<longrightarrow> \<not> hasMorePages (meta res))"
  unfolding filteredFetch_filtered [where fetchPage = fetchPage, OF assms]
  by (auto simp: FILTERED_PAGE_SIZE_def)

theorem filtered_hasMorePages_witness:
  "hasActiveFilters scoreFilter \<and>
   fixedPage windowB (Some ''next'') FILTERED_PAGE_SIZE 0 = Inr \<lparr> data = windowB, paging = \<lparr> previous = None, next = Some ''next'' \<rparr> \<rparr> \<and>
   hasMorePages (meta (projr (snd (filteredFetch demoNumberToString asciiToLowerCase (fixedPage windowB (Some ''next'')) scoreFilter 5 0 None)))) \<and>
   \<not> hasMorePages (meta (projr (snd (filteredFetch demoNumberToString asciiToLowerCase (fixedPage (take 40 windowB) (Some ''next'')) scoreFilter 5 0 None))))"
proof -
  have a: "fixedPage windowB (Some ''next'') FILTERED_PAGE_SIZE 0 =
      Inr \<lparr> data = windowB, paging = \<lparr> previous = None, next = Some ''next'' \<rparr> \<rparr>"
    by (simp add: fixedPage_def)
  have b: "fixedPage (take 40 windowB) (Some ''next'') FILTERED_PAGE_SIZE 0 =
      Inr \<lparr> data = take 40 windowB, paging = \<lparr> previous = None, next = Some ''next'' \<rparr> \<rparr>"
    by (simp add: fixedPage_def)
  from filtered_hasMorePages [where fetchPage = "fixedPage windowB (Some ''next'')" and nts = demoNumberToString and toLowerCase = asciiToLowerCase and requestedLimit = 5 and ctx = None, OF scoreFilter_active a]
  have 1: "hasMorePages (meta (projr (snd (filteredFetch demoNumberToString asciiToLowerCase (fixedPage windowB (Some ''next'')) scoreFilter 5 0 None))))"
    by (auto simp: length_windowB truthy_def)
  from filtered_hasMorePages [where fetchPage = "fixedPage (take 40 windowB) (Some ''next'')" and nts = demoNumberToString and toLowerCase = asciiToLowerCase and requestedLimit = 5 and ctx = None, OF scoreFilter_active b]
  have 2: "\<not> hasMorePages (meta (projr (snd (filteredFetch demoNumberToString asciiToLowerCase (fixedPage (take 40 windowB) (Some ''next'')) scoreFilter 5 0 None))))"
    by (auto simp: length_windowB)
  from scoreFilter_active a 1 2 show ?thesis by simp
qed

subsection \<open>C2: the offset to resume from\<close>

text \<open>
  Claim C2, as amended. On the filtered path \<open>meta.nextOffset\<close> is present exactly when
  \<open>meta.hasMorePages\<close> is true, and it is then \<open>initialOffset + totalScanned\<close>, the
  number of records fetched and not the number of matches. On the unfiltered path the
  returned meta has no \<open>nextOffset\<close> at all, while \<open>hasMorePages\<close> mirrors the remote
  continuation indicator.
\<close>

theorem nextOffset_filtered_only:
  assumes "fetchPage (if hasActiveFilters filters then FILTERED_PAGE_SIZE else requestedLimit)
             initialOffset = Inr result"
  shows "\<exists>res. snd (filteredFetch nts toLowerCase fetchPage filters requestedLimit initialOffset ctx) = Inr res \<and>
           totalScanned (meta res) = length (data result) \<and>
           (if hasActiveFilters filters
            then (nextOffset (meta res) \<noteq> None \<longleftrightarrow> hasMorePages (meta res)) \<and>
                 (hasMorePages (meta res) \<longrightarrow>
                    nextOffset (meta res) = Some (initialOffset + totalScanned (meta res)))
            else nextOffset (meta res) = None \<and>
                 (hasMorePages (meta res) \<longleftrightarrow> truthy (next (paging result))))"
proof (cases "hasActiveFilters filters")
  case True
  with assms have f: "fetchPage FILTERED_PAGE_SIZE initialOffset = Inr result" by simp
  show ?thesis
    unfolding filteredFetch_filtered [where fetchPage = fetchPage, OF True f]
    using True by simp
next
  case False
  with assms have f: "fetchPage requestedLimit initialOffset = Inr result" by simp
  show ?thesis
    unfolding filteredFetch_unfiltered [OF False]
    using False f by simp
qed

theorem nextOffset_filtered_only_witness:
  "fixedPage windowB (Some ''next'')
     (if hasActiveFilters scoreFilter then FILTERED_PAGE_SIZE else 5) 20 =
     Inr \<lparr> data = windowB, paging = \<lparr> previous = None, next = Some ''next'' \<rparr> \<rparr> \<and>
   (\<exists>res. snd (filteredFetch demoNumberToString asciiToLowerCase (fixedPage windowB (Some ''next''))
               scoreFilter 5 20 None) = Inr res \<and>
          hasMorePages (meta res) \<and> nextOffset (meta res) = Some 120)"
proof -
  from nextOffset_filtered_only [where fetchPage = "fixedPage windowB (Some ''next'')"
      and filters = scoreFilter and nts = demoNumberToString and toLowerCase = asciiToLowerCase and requestedLimit = 5
      and initialOffset = 20 and ctx = None, OF page_windowB]
  obtain res where r: "snd (filteredFetch demoNumberToString asciiToLowerCase (fixedPage windowB (Some ''next''))
        scoreFilter 5 20 None) = Inr res"
    and s: "totalScanned (meta res) = 100"
    and n: "hasMorePages (meta res) \<longrightarrow>
            nextOffset (meta res) = Some (20 + totalScanned (meta res))"
    by (auto simp: scoreFilter_active length_windowB)
  from r have "hasMorePages (meta res)"
    unfolding filteredFetch_filtered [where fetchPage = "fixedPage windowB (Some ''next'')",
        OF scoreFilter_active page_windowB]
    by (auto simp: length_windowB truthy_def FILTERED_PAGE_SIZE_def)
  with r s n show ?thesis by (simp add: page_windowB)
qed

text \<open>
  The claim as stated fails on the unfiltered path: the first ten records of a catalog
  of a hundred come back with \<open>hasMorePages = true\<close> and no \<open>nextOffset\<close>.
\<close>

theorem nextOffset_unfiltered_counterexample:
  "snd (filteredFetch demoNumberToString asciiToLowerCase (remoteCatalog windowB) noFilters 10 0 None) =
     Inr \<lparr> items = take 10 windowB,
           meta = \<lparr> totalScanned = 10, totalMatched = 10, pagesScanned = 1,
                    activeFilters = [], hasMorePages = True, nextOffset = None \<rparr> \<rparr>"
  by (simp add: filteredFetch_unfiltered [OF noFilters_inactive] remoteCatalog_def
      length_windowB truthy_def)

subsection \<open>C3: what totalMatched counts\<close>

text \<open>
  Claim C3, as amended. On the filtered path the scan of the window stops at the push
  that brings the accumulator to \<open>requestedLimit\<close>, so \<open>meta.totalMatched\<close> is the number
  of matches accumulated until then: the smaller of \<open>requestedLimit\<close> (of 1, for a limit
  of 0) and the number of records of the window that pass the predicate. The returned
  items are the first \<open>requestedLimit\<close> matching records in arrival order,
  \<open>totalScanned\<close> is the size of the window, and for a limit of at least 1
  \<open>totalMatched\<close> is the number of items returned.
\<close>

theorem totalMatched_capped:
  assumes "hasActiveFilters filters"
    and "fetchPage FILTERED_PAGE_SIZE initialOffset = Inr result"
  shows "\<exists>res. snd (filteredFetch nts toLowerCase fetchPage filters requestedLimit initialOffset ctx) = Inr res \<and>
           totalScanned (meta res) = length (data result) \<and>
           totalMatched (meta res) =
             min (max 1 requestedLimit) (length (matching toLowerCase filters ctx (data result))) \<and>
           items res = take requestedLimit (matching toLowerCase filters ctx (data result)) \<and>
           (1 \<le> requestedLimit \<longrightarrow> totalMatched (meta res) = length (items res))"
  unfolding filteredFetch_filtered [where fetchPage = fetchPage, OF assms]
  by (auto simp: length_scan take_scan)

theorem totalMatched_capped_witness:
  "hasActiveFilters scoreFilter \<and>
   fixedPage windowB (Some ''next'') FILTERED_PAGE_SIZE 0 =
     Inr \<lparr> data = windowB, paging = \<lparr> previous = None, next = Some ''next'' \<rparr> \<rparr> \<and>
   (\<exists>res. snd (filteredFetch demoNumberToString asciiToLowerCase (fixedPage windowB (Some ''next''))
               scoreFilter 5 0 None) = Inr res \<and>
          totalScanned (meta res) = 100 \<and> totalMatched (meta res) = 5 \<and>
          items res = map scored [8, 8.09, 8.18, 8.27, 8.36])"
proof -
  from totalMatched_capped [where fetchPage = "fixedPage windowB (Some ''next'')"
      and nts = demoNumberToString and toLowerCase = asciiToLowerCase and requestedLimit = 5 and ctx = None
      and initialOffset = 0, OF scoreFilter_active page_windowB]
  obtain res where "snd (filteredFetch demoNumberToString asciiToLowerCase (fixedPage windowB (Some ''next''))
               scoreFilter 5 0 None) = Inr res"
    and "totalScanned (meta res) = 100" and "totalMatched (meta res) = 5"
    and "items res = map scored [8, 8.09, 8.18, 8.27, 8.36]"
    by (auto simp: matching_windowB length_windowB)
  with scoreFilter_active page_windowB show ?thesis by blast
qed

text \<open>
  Scenario B of the specification, run on the code: the spec is \<^verbatim>\<open>{minScore: 8.0}\<close>, the
  window holds 100 records of which 12 score at least 8, and the limit is 5. The items
  are the first five of the twelve and \<open>totalScanned\<close> is 100, but \<open>totalMatched\<close> is 5,
  not 12.
\<close>

theorem scenarioB_totalMatched_counterexample:
  "length windowB = 100 \<and>
   length (matching asciiToLowerCase scoreFilter None windowB) = 12 \<and>
   snd (filteredFetch demoNumberToString asciiToLowerCase (fixedPage windowB (Some ''next'')) scoreFilter 5 0 None) =
     Inr \<lparr> items = map scored [8, 8.09, 8.18, 8.27, 8.36],
           meta = \<lparr> totalScanned = 100, totalMatched = 5, pagesScanned = 1,
                    activeFilters = [''min_score>=8''], hasMorePages = True,
                    nextOffset = Some 100 \<rparr> \<rparr>"
  unfolding filteredFetch_filtered [where fetchPage = "fixedPage windowB (Some ''next'')",
      OF scoreFilter_active page_windowB]
  by (simp add: length_scan take_scan matching_windowB length_windowB
      describe_scoreFilter truthy_def FILTERED_PAGE_SIZE_def)

subsection \<open>C4: the unfiltered path is a pass-through\<close>

text \<open>
  Claim C4. For an inactive filter spec (no field other than the modifier
  \<open>genre_mode\<close> set to a non-empty, non-false value) \<open>hasActiveFilters\<close> is false and
  \<open>filteredFetch\<close> makes exactly one call to the capability, with the arguments
  \<open>(requestedLimit, initialOffset)\<close>. It returns the fetched records verbatim, with
  \<open>hasMorePages\<close> mirroring the remote continuation indicator,
  \<open>totalScanned = totalMatched =\<close> the number of records, \<open>pagesScanned = 1\<close> and
  \<open>activeFilters = []\<close>; a rejection of the capability is the rejection of the call.
\<close>

theorem unfiltered_passthrough:
  assumes "inactiveSpec filters"
  shows "\<not> hasActiveFilters filters \<and>
     filteredFetch nts toLowerCase fetchPage filters requestedLimit initialOffset ctx =
       ([(requestedLimit, initialOffset)],
        case fetchPage requestedLimit initialOffset of
          Inl e \<Rightarrow> Inl e
        | Inr result \<Rightarrow>
            Inr \<lparr> items = data result,
                  meta = \<lparr> totalScanned = length (data result),
                           totalMatched = length (data result),
                           pagesScanned = 1,
                           activeFilters = [],
                           hasMorePages = truthy (next (paging result)),
                           nextOffset = None \<rparr> \<rparr>)"
proof -
  from assms have i: "\<not> hasActiveFilters filters" by (simp add: inactiveSpec_iff)
  from i filteredFetch_unfiltered [OF i] show ?thesis by simp
qed

theorem unfiltered_passthrough_witness:
  "inactiveSpec (noFilters \<lparr> genre_mode := Some ''and'' \<rparr>) \<and>
   filteredFetch demoNumberToString asciiToLowerCase (remoteCatalog windowB)
       (noFilters \<lparr> genre_mode := Some ''and'' \<rparr>) 10 0 None =
     ([(10, 0)],
      Inr \<lparr> items = take 10 windowB,
            meta = \<lparr> totalScanned = 10, totalMatched = 10, pagesScanned = 1,
                     activeFilters = [], hasMorePages = True, nextOffset = None \<rparr> \<rparr>)"
proof -
  have a: "inactiveSpec (noFilters \<lparr> genre_mode := Some ''and'' \<rparr>)"
    by (simp add: inactiveSpec_def noFilters_def listOf_def)
  from unfiltered_passthrough [OF a, of demoNumberToString asciiToLowerCase
      "remoteCatalog windowB" 10 0 None] a
  show ?thesis
    by (simp add: remoteCatalog_def length_windowB truthy_def)
qed

subsection \<open>C5: bounds on the counts\<close>

text \<open>
  Claim C5. Whenever the capability answers with a page, the returned meta satisfies
  \<open>totalMatched \<le> totalScanned\<close> and the item list is no longer than
  \<open>min requestedLimit totalMatched\<close>. On the filtered path this holds for every
  window. On the unfiltered path the records are returned verbatim, and the bound by
  \<open>requestedLimit\<close> is the capability's own contract: asked for \<open>requestedLimit\<close>
  records, it answers with at most that many.
\<close>

theorem meta_bounds:
  assumes "fetchPage (if hasActiveFilters filters then FILTERED_PAGE_SIZE else requestedLimit)
             initialOffset = Inr result"
    and "\<not> hasActiveFilters filters \<longrightarrow> length (data result) \<le> requestedLimit"
  shows "\<exists>res. snd (filteredFetch nts toLowerCase fetchPage filters requestedLimit initialOffset ctx) = Inr res \<and>
           totalMatched (meta res) \<le> totalScanned (meta res) \<and>
           length (items res) \<le> min requestedLimit (totalMatched (meta res))"
proof (cases "hasActiveFilters filters")
  case True
  with assms have f: "fetchPage FILTERED_PAGE_SIZE initialOffset = Inr result" by simp
  have "length (matching toLowerCase filters ctx (data result)) \<le> length (data result)"
    by (rule length_matching_le)
  then have "length (scan toLowerCase filters ctx requestedLimit (data result) []) \<le> length (data result)"
    unfolding length_scan by (rule min.coboundedI2)
  then show ?thesis
    unfolding filteredFetch_filtered [where fetchPage = fetchPage, OF True f]
    by simp
next
  case False
  with assms have f: "fetchPage requestedLimit initialOffset = Inr result"
    and b: "length (data result) \<le> requestedLimit" by simp_all
  show ?thesis
    unfolding filteredFetch_unfiltered [OF False]
    using f b by simp
qed

theorem meta_bounds_witness:
  "remoteCatalog windowB (if hasActiveFilters noFilters then FILTERED_PAGE_SIZE else 10) 95 =
     Inr \<lparr> data = drop 95 windowB, paging = \<lparr> previous = None, next = None \<rparr> \<rparr> \<and>
   (\<exists>res. snd (filteredFetch demoNumberToString asciiToLowerCase (remoteCatalog windowB) noFilters 10 95 None) =
            Inr res \<and>
      totalMatched (meta res) \<le> totalScanned (meta res) \<and>
      length (items res) \<le> min 10 (totalMatched (meta res)))"
proof -
  have a: "remoteCatalog windowB (if hasActiveFilters noFilters then FILTERED_PAGE_SIZE else 10) 95 =
     Inr \<lparr> data = drop 95 windowB, paging = \<lparr> previous = None, next = None \<rparr> \<rparr>"
    by (simp add: remoteCatalog_def noFilters_inactive length_windowB)
  have b: "\<not> hasActiveFilters noFilters \<longrightarrow>
      length (data \<lparr> data = drop 95 windowB, paging = \<lparr> previous = None, next = None \<rparr> \<rparr>) \<le> 10"
    by (simp add: length_windowB)
  from meta_bounds [where fetchPage = "remoteCatalog windowB" and filters = noFilters
      and requestedLimit = 10 and initialOffset = 95 and nts = demoNumberToString and toLowerCase = asciiToLowerCase
      and ctx = None, OF a b] a
  show ?thesis by simp
qed

subsection \<open>C6: the mode and is no less restrictive than or\<close>

text \<open>
  Claim C6. For every record, every \<open>genres_include\<close> and every setting of the other
  filter fields, a record that matches with \<open>genre_mode = "and"\<close> also matches with
  \<open>genre_mode = "or"\<close>, and with the mode left out (which defaults to or): the records
  matched under and are among those matched under or.
\<close>

theorem genre_and_implies_or:
  assumes "matchesFilters toLowerCase nd (filters \<lparr> genre_mode := Some ''and'' \<rparr>) ctx"
  shows "matchesFilters toLowerCase nd (filters \<lparr> genre_mode := Some ''or'' \<rparr>) ctx \<and>
         matchesFilters toLowerCase nd (filters \<lparr> genre_mode := None \<rparr>) ctx"
proof -
  from assms have
    i: "\<not> rejectsGenresInclude toLowerCase (map toLowerCase (genreNamesOf nd))
          (filters \<lparr> genre_mode := Some ''and'' \<rparr>)"
    and r: "\<not> rejectsGenresExclude toLowerCase (map toLowerCase (genreNamesOf nd)) filters"
      "\<not> rejectsMinScore nd filters" "\<not> rejectsMinMembers nd filters"
      "\<not> rejectsMediaType nd filters" "\<not> rejectsStatus nd filters"
      "\<not> rejectsSource nd filters" "\<not> rejectsSeason nd filters ctx"
    unfolding matchesFilters_conj genreNames_lower mode_irrelevant by simp_all
  have "\<not> rejectsGenresInclude toLowerCase (map toLowerCase (genreNamesOf nd))
          (filters \<lparr> genre_mode := Some ''or'' \<rparr>)"
    by (rule include_and_implies_other [OF i]) simp
  moreover have "\<not> rejectsGenresInclude toLowerCase (map toLowerCase (genreNamesOf nd))
          (filters \<lparr> genre_mode := None \<rparr>)"
    by (rule include_and_implies_other [OF i]) simp
  ultimately show ?thesis
    unfolding matchesFilters_conj genreNames_lower mode_irrelevant using r by simp
qed

theorem genre_and_implies_or_witness:
  "matchesFilters asciiToLowerCase (tagged [''Action'', ''Romance''])
     (noFilters \<lparr> genres_include := Some [''action'', ''romance''] \<rparr>
        \<lparr> genre_mode := Some ''and'' \<rparr>) None \<and>
   matchesFilters asciiToLowerCase (tagged [''Action'', ''Romance''])
     (noFilters \<lparr> genres_include := Some [''action'', ''romance''] \<rparr>
        \<lparr> genre_mode := Some ''or'' \<rparr>) None \<and>
   \<not> matchesFilters asciiToLowerCase (tagged [''Action''])
     (noFilters \<lparr> genres_include := Some [''action'', ''romance''] \<rparr>
        \<lparr> genre_mode := Some ''and'' \<rparr>) None \<and>
   matchesFilters asciiToLowerCase (tagged [''Action''])
     (noFilters \<lparr> genres_include := Some [''action'', ''romance''] \<rparr>
        \<lparr> genre_mode := Some ''or'' \<rparr>) None"
proof -
  have a: "matchesFilters asciiToLowerCase (tagged [''Action'', ''Romance''])
     (noFilters \<lparr> genres_include := Some [''action'', ''romance''] \<rparr>
        \<lparr> genre_mode := Some ''and'' \<rparr>) None"
    by (simp add: matches_eval)
  have b: "\<not> matchesFilters asciiToLowerCase (tagged [''Action''])
     (noFilters \<lparr> genres_include := Some [''action'', ''romance''] \<rparr>
        \<lparr> genre_mode := Some ''and'' \<rparr>) None"
    by (simp add: matches_eval)
  have c: "matchesFilters asciiToLowerCase (tagged [''Action''])
     (noFilters \<lparr> genres_include := Some [''action'', ''romance''] \<rparr>
        \<lparr> genre_mode := Some ''or'' \<rparr>) None"
    by (simp add: matches_eval)
  from genre_and_implies_or [OF a] a b c show ?thesis by simp
qed

subsection \<open>C7: genre names are compared without regard to case\<close>

text \<open>
  Claim C7. The predicate lower-cases the genre names of the record and the names
  requested in \<open>genres_include\<close> and \<open>genres_exclude\<close> with the same conversion before
  it compares them, so both genre checks compare names up to letter case. For every
  conversion \<open>toLowerCase\<close>:
  \<^item> a record passes the include check exactly when \<open>genres_include\<close> is empty, or some
    requested name (every requested name, in the mode and) equals a genre name of the
    record up to case; it passes the exclude check exactly when no excluded name equals
    a genre name of the record up to case; the other six checks read no genre;
  \<^item> the answer of the predicate does not change when the genre names of the record,
    the included names and the excluded names are replaced by names that equal them up
    to case;
  \<^item> where \<open>Action\<close> and \<open>action\<close> have the same lower-case form, a record tagged
    \<open>Action\<close> matches a request to include \<open>action\<close> and is rejected by a request to
    exclude \<open>action\<close>.
\<close>

theorem genre_match_case_insensitive:
  "(matchesFilters toLowerCase nd filters ctx \<longleftrightarrow>
      (listOf (genres_include filters) = [] \<or>
       (if genre_mode filters = Some ''and''
        then \<forall>w\<in>set (listOf (genres_include filters)).
               \<exists>g\<in>set (genreNamesOf nd). sameUpToCase toLowerCase w g
        else \<exists>w\<in>set (listOf (genres_include filters)).
               \<exists>g\<in>set (genreNamesOf nd). sameUpToCase toLowerCase w g)) \<and>
      (\<forall>e\<in>set (listOf (genres_exclude filters)).
         \<forall>g\<in>set (genreNamesOf nd). \<not> sameUpToCase toLowerCase e g) \<and>
      matchesFilters toLowerCase (nd \<lparr> genres := None \<rparr>)
        (filters \<lparr> genres_include := None, genres_exclude := None \<rparr>) ctx) \<and>
   (variant_names toLowerCase (genreNamesOf nd) (genreNamesOf (nd \<lparr> genres := gs \<rparr>)) \<and>
    variant_names toLowerCase (listOf (genres_include filters)) (listOf gi) \<and>
    variant_names toLowerCase (listOf (genres_exclude filters)) (listOf ge)
    \<longrightarrow> matchesFilters toLowerCase (nd \<lparr> genres := gs \<rparr>)
          (filters \<lparr> genres_include := gi, genres_exclude := ge \<rparr>) ctx =
        matchesFilters toLowerCase nd filters ctx) \<and>
   (sameUpToCase toLowerCase ''action'' ''Action''
    \<longrightarrow> matchesFilters toLowerCase (tagged [''Action''])
          (noFilters \<lparr> genres_include := Some [''action''] \<rparr>) ctx \<and>
        \<not> matchesFilters toLowerCase (tagged [''Action''])
          (noFilters \<lparr> genres_exclude := Some [''action''] \<rparr>) ctx)"
proof (intro conjI impI)
  show "matchesFilters toLowerCase nd filters ctx \<longleftrightarrow>
      (listOf (genres_include filters) = [] \<or>
       (if genre_mode filters = Some ''and''
        then \<forall>w\<in>set (listOf (genres_include filters)).
               \<exists>g\<in>set (genreNamesOf nd). sameUpToCase toLowerCase w g
        else \<exists>w\<in>set (listOf (genres_include filters)).
               \<exists>g\<in>set (genreNamesOf nd). sameUpToCase toLowerCase w g)) \<and>
      (\<forall>e\<in>set (listOf (genres_exclude filters)).
         \<forall>g\<in>set (genreNamesOf nd). \<not> sameUpToCase toLowerCase e g) \<and>
      matchesFilters toLowerCase (nd \<lparr> genres := None \<rparr>)
        (filters \<lparr> genres_include := None, genres_exclude := None \<rparr>) ctx"
    by (rule matchesFilters_genres)
next
  assume v: "variant_names toLowerCase (genreNamesOf nd) (genreNamesOf (nd \<lparr> genres := gs \<rparr>)) \<and>
    variant_names toLowerCase (listOf (genres_include filters)) (listOf gi) \<and>
    variant_names toLowerCase (listOf (genres_exclude filters)) (listOf ge)"
  let ?f = "filters \<lparr> genres_include := gi, genres_exclude := ge \<rparr>"
  let ?n = "nd \<lparr> genres := gs \<rparr>"
  from v have n: "map toLowerCase (genreNamesOf ?n) = map toLowerCase (genreNamesOf nd)"
    using variant_names_lower [of toLowerCase "genreNamesOf nd" "genreNamesOf ?n"] by simp
  from v have i: "map toLowerCase (listOf gi) = map toLowerCase (listOf (genres_include filters))"
    using variant_names_lower [of toLowerCase "listOf (genres_include filters)" "listOf gi"]
    by simp
  from v have i0: "listOf gi = [] \<longleftrightarrow> listOf (genres_include filters) = []"
    using variant_names_Nil [of toLowerCase "listOf (genres_include filters)" "listOf gi"]
    by simp
  from v have e: "map toLowerCase (listOf ge) = map toLowerCase (listOf (genres_exclude filters))"
    using variant_names_lower [of toLowerCase "listOf (genres_exclude filters)" "listOf ge"]
    by simp
  have "rejectsGenresInclude toLowerCase (map toLowerCase (genreNamesOf ?n)) ?f =
        rejectsGenresInclude toLowerCase (map toLowerCase (genreNamesOf nd)) filters"
    unfolding rejectsGenresInclude_alt n by (simp add: i i0)
  moreover have "rejectsGenresExclude toLowerCase (map toLowerCase (genreNamesOf ?n)) ?f =
        rejectsGenresExclude toLowerCase (map toLowerCase (genreNamesOf nd)) filters"
    unfolding rejectsGenresExclude_alt n by (simp add: e)
  ultimately show "matchesFilters toLowerCase ?n ?f ctx = matchesFilters toLowerCase nd filters ctx"
    unfolding matchesFilters_conj genreNames_lower genres_irrelevant requested_irrelevant
    by simp
next
  assume "sameUpToCase toLowerCase ''action'' ''Action''"
  then show "matchesFilters toLowerCase (tagged [''Action''])
          (noFilters \<lparr> genres_include := Some [''action''] \<rparr>) ctx"
    unfolding matchesFilters_genres [of toLowerCase "tagged [''Action'']"]
    by (simp add: listOf_def genreNamesOf_def tagged_def plainNode_def noFilters_def
        matches_plain [unfolded plainNode_def noFilters_def])
next
  assume "sameUpToCase toLowerCase ''action'' ''Action''"
  then show "\<not> matchesFilters toLowerCase (tagged [''Action''])
          (noFilters \<lparr> genres_exclude := Some [''action''] \<rparr>) ctx"
    unfolding matchesFilters_genres [of toLowerCase "tagged [''Action'']"]
    by (simp add: listOf_def genreNamesOf_def tagged_def plainNode_def noFilters_def)
qed

theorem genre_match_case_insensitive_witness:
  "variant_names asciiToLowerCase (genreNamesOf (tagged [''Action'', ''Comedy'']))
     (genreNamesOf (tagged [''Action'', ''Comedy'']
        \<lparr> genres := Some [\<lparr> name = ''ACTION'' \<rparr>, \<lparr> name = ''comedy'' \<rparr>] \<rparr>)) \<and>
   variant_names asciiToLowerCase (listOf (genres_include genreSpec)) (listOf (Some [''aCtIoN''])) \<and>
   variant_names asciiToLowerCase (listOf (genres_exclude genreSpec)) (listOf (Some [''HORROR''])) \<and>
   sameUpToCase asciiToLowerCase ''action'' ''Action'' \<and>
   matchesFilters asciiToLowerCase (tagged [''Action'', ''Comedy'']) genreSpec None \<and>
   matchesFilters asciiToLowerCase
     (tagged [''Action'', ''Comedy'']
        \<lparr> genres := Some [\<lparr> name = ''ACTION'' \<rparr>, \<lparr> name = ''comedy'' \<rparr>] \<rparr>)
     (genreSpec \<lparr> genres_include := Some [''aCtIoN''], genres_exclude := Some [''HORROR''] \<rparr>)
     None \<and>
   \<not> matchesFilters asciiToLowerCase (tagged [''Action'', ''Comedy''])
       (genreSpec \<lparr> genres_exclude := Some [''COMEDY''] \<rparr>) None \<and>
   matchesFilters asciiToLowerCase (tagged [''Action''])
     (noFilters \<lparr> genres_include := Some [''action''] \<rparr>) None \<and>
   \<not> matchesFilters asciiToLowerCase (tagged [''Action''])
       (noFilters \<lparr> genres_exclude := Some [''action''] \<rparr>) None"
proof -
  have a: "variant_names asciiToLowerCase (genreNamesOf (tagged [''Action'', ''Comedy'']))
     (genreNamesOf (tagged [''Action'', ''Comedy'']
        \<lparr> genres := Some [\<lparr> name = ''ACTION'' \<rparr>, \<lparr> name = ''comedy'' \<rparr>] \<rparr>))"
    by (rule case_variants_names)
      (simp add: case_variant_def same_letter_def genreNamesOf_def tagged_def plainNode_def
        upper_letters_def lower_letters_def)
  have b: "variant_names asciiToLowerCase (listOf (genres_include genreSpec))
     (listOf (Some [''aCtIoN'']))"
    by (rule case_variants_names)
      (simp add: case_variant_def same_letter_def listOf_def genreSpec_def noFilters_def
        upper_letters_def lower_letters_def)
  have c: "variant_names asciiToLowerCase (listOf (genres_exclude genreSpec))
     (listOf (Some [''HORROR'']))"
    by (rule case_variants_names)
      (simp add: case_variant_def same_letter_def listOf_def genreSpec_def noFilters_def
        upper_letters_def lower_letters_def)
  have d: "sameUpToCase asciiToLowerCase ''action'' ''Action''"
    by (rule case_variant_same)
      (simp add: case_variant_def same_letter_def upper_letters_def lower_letters_def)
  have m: "matchesFilters asciiToLowerCase (tagged [''Action'', ''Comedy'']) genreSpec None"
    by (simp add: matches_eval genreSpec_def)
  have x: "\<not> matchesFilters asciiToLowerCase (tagged [''Action'', ''Comedy''])
       (genreSpec \<lparr> genres_exclude := Some [''COMEDY''] \<rparr>) None"
    by (simp add: matches_eval genreSpec_def)
  from genre_match_case_insensitive [of asciiToLowerCase "tagged [''Action'', ''Comedy'']"
      genreSpec None "Some [\<lparr> name = ''ACTION'' \<rparr>, \<lparr> name = ''comedy'' \<rparr>]"
      "Some [''aCtIoN'']" "Some [''HORROR'']"] a b c d m x
  show ?thesis by simp
qed

subsection \<open>C8: the description builder\<close>

text \<open>
  Claim C8. \<open>buildActiveFilterDescriptions\<close> is a function of the fields of the spec:
  two specs that agree field for field give the same list of strings. Its result is the
  list of the renderings of the active fields in the canonical order genre-include
  (with the mode in upper case), genre-exclude, min-score, min-members, media-type,
  status, source, season-only marker, as \<open>describe_canonical\<close> states it; a field with
  no active value contributes no string.
\<close>

theorem describe_deterministic_canonical:
  "buildActiveFilterDescriptions nts filters = describe_canonical nts filters \<and>
   (genres_include filters' = genres_include filters \<and>
    genres_exclude filters' = genres_exclude filters \<and>
    genre_mode filters' = genre_mode filters \<and>
    min_score filters' = min_score filters \<and>
    min_members filters' = min_members filters \<and>
    media_type filters' = media_type filters \<and>
    status filters' = status filters \<and>
    source filters' = source filters \<and>
    current_season_only filters' = current_season_only filters
    \<longrightarrow> buildActiveFilterDescriptions nts filters' =
        buildActiveFilterDescriptions nts filters)"
  by (simp add: build_eq_canonical describe_canonical_def)

theorem describe_deterministic_canonical_witness:
  "buildActiveFilterDescriptions demoNumberToString fullSpec =
     [''genres(AND)=Action,Romance'', ''exclude_genres=Horror'', ''min_score>=8'',
      ''min_members>=1000'', ''media_type=tv,movie'', ''status=finished_airing'',
      ''source=manga'', ''current_season_only''] \<and>
   buildActiveFilterDescriptions demoNumberToString
     (fullSpec \<lparr> genres_exclude := Some [], min_score := None, status := None,
                 current_season_only := Some False \<rparr>) =
     [''genres(AND)=Action,Romance'', ''min_members>=1000'', ''media_type=tv,movie'',
      ''source=manga'']"
proof -
  have "describe_canonical demoNumberToString fullSpec =
     [''genres(AND)=Action,Romance'', ''exclude_genres=Horror'', ''min_score>=8'',
      ''min_members>=1000'', ''media_type=tv,movie'', ''status=finished_airing'',
      ''source=manga'', ''current_season_only'']"
    by (simp add: describe_canonical_def fullSpec_def rendered_def nonEmptyList_def
        listOf_def demoNumberToString_def toUpperCase_def upper_char_def upper_letters_def
        lower_letters_def)
  moreover have "describe_canonical demoNumberToString
     (fullSpec \<lparr> genres_exclude := Some [], min_score := None, status := None,
                 current_season_only := Some False \<rparr>) =
     [''genres(AND)=Action,Romance'', ''min_members>=1000'', ''media_type=tv,movie'',
      ''source=manga'']"
    by (simp add: describe_canonical_def fullSpec_def rendered_def nonEmptyList_def
        listOf_def demoNumberToString_def toUpperCase_def upper_char_def upper_letters_def
        lower_letters_def)
  ultimately show ?thesis
    using describe_deterministic_canonical [of demoNumberToString fullSpec fullSpec]
      describe_deterministic_canonical [of demoNumberToString
        "fullSpec \<lparr> genres_exclude := Some [], min_score := None, status := None,
                    current_season_only := Some False \<rparr>" fullSpec]
    by simp
qed

subsection \<open>C9: a failure of the capability is the failure of the call\<close>

text \<open>
  Claim C9. If the one call that \<open>filteredFetch\<close> makes to the capability
  (for \<open>FILTERED_PAGE_SIZE\<close> records on the filtered path, for \<open>requestedLimit\<close> on the
  unfiltered one) fails with an error, then \<open>filteredFetch\<close> fails with the same error,
  unchanged; the trace holds that single call, so nothing is retried, and no partial
  result is returned.
\<close>

theorem fetch_failure_propagates:
  assumes "fetchPage (if hasActiveFilters filters then FILTERED_PAGE_SIZE else requestedLimit)
             initialOffset = Inl e"
  shows "filteredFetch nts toLowerCase fetchPage filters requestedLimit initialOffset ctx =
     ([(if hasActiveFilters filters then FILTERED_PAGE_SIZE else requestedLimit, initialOffset)],
      Inl e)"
  using assms by (simp add: filteredFetch_def split: if_splits)

theorem fetch_failure_propagates_witness:
  "rejecting ''MAL API error 500''
     (if hasActiveFilters scoreFilter then FILTERED_PAGE_SIZE else 5) 0 = Inl ''MAL API error 500'' \<and>
   filteredFetch demoNumberToString asciiToLowerCase (rejecting ''MAL API error 500'') scoreFilter 5 0 None =
     ([(100, 0)], Inl ''MAL API error 500'') \<and>
   filteredFetch demoNumberToString asciiToLowerCase (rejecting ''MAL API error 500'') noFilters 5 0 None =
     ([(5, 0)], Inl ''MAL API error 500'')"
proof -
  have a: "rejecting ''MAL API error 500'' l off = Inl ''MAL API error 500''" for l off
    by (simp add: rejecting_def)
  from fetch_failure_propagates [where fetchPage = "rejecting ''MAL API error 500''"
      and filters = scoreFilter and requestedLimit = 5 and initialOffset = 0
      and nts = demoNumberToString and toLowerCase = asciiToLowerCase and ctx = None, OF a]
    fetch_failure_propagates [where fetchPage = "rejecting ''MAL API error 500''"
      and filters = noFilters and requestedLimit = 5 and initialOffset = 0
      and nts = demoNumberToString and toLowerCase = asciiToLowerCase and ctx = None, OF a]
  show ?thesis
    by (simp add: a scoreFilter_active noFilters_inactive FILTERED_PAGE_SIZE_def)
qed

subsection \<open>C10: the season check needs a season context\<close>

text \<open>
  Claim C10. With \<open>current_season_only\<close> set to true and no \<open>seasonContext\<close> supplied,
  the current-season check is skipped: the predicate answers as it does with the flag
  set to any other value and with any premiere season on the record, so a record that
  lacks a premiere season is not rejected for it. A record that passes with the flag off
  and fails with the flag on was judged with a \<open>seasonContext\<close> present.
\<close>

theorem season_check_needs_context:
  "matchesFilters toLowerCase nd (filters \<lparr> current_season_only := Some True \<rparr>) None =
     matchesFilters toLowerCase (nd \<lparr> start_season := ss \<rparr>) (filters \<lparr> current_season_only := b \<rparr>) None \<and>
   (matchesFilters toLowerCase nd (filters \<lparr> current_season_only := b \<rparr>) ctx \<and>
    \<not> matchesFilters toLowerCase nd (filters \<lparr> current_season_only := Some True \<rparr>) ctx
      \<longrightarrow> ctx \<noteq> None)"
proof
  show "matchesFilters toLowerCase nd (filters \<lparr> current_season_only := Some True \<rparr>) None =
     matchesFilters toLowerCase (nd \<lparr> start_season := ss \<rparr>) (filters \<lparr> current_season_only := b \<rparr>) None"
    unfolding matchesFilters_conj genreNames_lower season_irrelevant start_season_irrelevant
    by (simp add: rejectsSeason_no_context)
next
  show "matchesFilters toLowerCase nd (filters \<lparr> current_season_only := b \<rparr>) ctx \<and>
    \<not> matchesFilters toLowerCase nd (filters \<lparr> current_season_only := Some True \<rparr>) ctx
      \<longrightarrow> ctx \<noteq> None"
  proof
    assume "matchesFilters toLowerCase nd (filters \<lparr> current_season_only := b \<rparr>) ctx \<and>
      \<not> matchesFilters toLowerCase nd (filters \<lparr> current_season_only := Some True \<rparr>) ctx"
    then have "rejectsSeason nd (filters \<lparr> current_season_only := Some True \<rparr>) ctx"
      unfolding matchesFilters_conj genreNames_lower season_irrelevant by blast
    then show "ctx \<noteq> None" by (rule rejectsSeason_flag)
  qed
qed

theorem season_check_needs_context_witness:
  "matchesFilters asciiToLowerCase plainNode (noFilters \<lparr> current_season_only := Some True \<rparr>) None \<and>
   \<not> matchesFilters asciiToLowerCase plainNode (noFilters \<lparr> current_season_only := Some True \<rparr>)
       (Some \<lparr> queriedYear = 2024, queriedSeason = ''summer'' \<rparr>)"
proof -
  have a: "matchesFilters asciiToLowerCase (plainNode \<lparr> start_season := None \<rparr>)
      (noFilters \<lparr> current_season_only := None \<rparr>) None"
    by (simp add: matches_eval)
  have b: "\<not> matchesFilters asciiToLowerCase plainNode (noFilters \<lparr> current_season_only := Some True \<rparr>)
       (Some \<lparr> queriedYear = 2024, queriedSeason = ''summer'' \<rparr>)"
    by (simp add: matches_eval)
  from season_check_needs_context [of asciiToLowerCase plainNode noFilters None None None] a b
  show ?thesis by simp
qed

end
